theory Spec2Isabelle
  imports Main "HOL-Library.Word" "HOL-Library.Signed_Division"
begin

unbundle bit_operations_syntax

section \<open>Data model of auto_health_monitor.c\<close>

text \<open>
  The module is built for a 64-bit kernel: \<open>unsigned long\<close> is a 64-bit word,
  \<open>atomic_t\<close> wraps a 32-bit \<open>int\<close>, \<open>ktime_t\<close> is a signed 64-bit value.
\<close>

type_synonym ulong = "64 word"
type_synonym atomic_t = "32 word"
type_synonym u32 = "32 word"

text \<open>
  \<open>struct auto_monitor_data\<close>, field by field, together with the pending bit of the
  single work item \<open>monitor_work\<close> (set by \<open>schedule_work\<close>, cleared by the worker
  before it calls the handler).
\<close>

record auto_monitor_data =
  last_check_time :: "64 word"
  current_sim_workload_level :: ulong
  resource_allocation_factor :: ulong
  critical_alerts :: atomic_t
  timer_ticks :: atomic_t
  simulated_gpu_temp :: ulong
  simulated_memory_pressure :: ulong
  work_pending :: bool

definition MAX_WORKLOAD_LEVEL :: ulong where
  "MAX_WORKLOAD_LEVEL = 100"

definition MAX_RESOURCE_FACTOR :: ulong where
  "MAX_RESOURCE_FACTOR = 10"

datatype errno = EINVAL | EFAULT | ERANGE

section \<open>Workqueue handler\<close>

text \<open>
  \<open>monitor_work_handler\<close>: the workload and the resource factor are read into locals
  first; the branches test the locals and update the field.
\<close>

definition monitor_work_handler :: "auto_monitor_data \<Rightarrow> auto_monitor_data" where
  "monitor_work_handler s =
     (let current_wl = current_sim_workload_level s;
          current_rf = resource_allocation_factor s
      in if current_wl > 80 \<and> current_rf < MAX_RESOURCE_FACTOR then
           (let s1 = s\<lparr>resource_allocation_factor := resource_allocation_factor s + 1\<rparr>
            in if resource_allocation_factor s1 = MAX_RESOURCE_FACTOR
               then s1\<lparr>critical_alerts := critical_alerts s1 + 1\<rparr>
               else s1)
         else if current_wl < 20 \<and> current_rf > 1 then
           s\<lparr>resource_allocation_factor := resource_allocation_factor s - 1\<rparr>
         else s)"

text \<open>\<open>schedule_work(&monitor_work)\<close>: queue the work item unless it is already pending.\<close>

definition schedule_work :: "auto_monitor_data \<Rightarrow> auto_monitor_data" where
  "schedule_work s = s\<lparr>work_pending := True\<rparr>"


section \<open>Timer callback\<close>

text \<open>
  \<open>monitor_timer_callback\<close>. \<open>now\<close> is what \<open>ktime_get()\<close> returns and \<open>rnd\<close> what
  \<open>get_random_u32()\<close> returns when it is called. \<open>atomic_read\<close> yields a signed
  \<open>int\<close>, whose remainder truncates towards zero. In
  \<open>current_sim_workload_level + get_random_u32() % 20 - 10\<close> the remainder is a \<open>u32\<close>,
  widened to \<open>unsigned long\<close>, and the whole expression is unsigned 64-bit arithmetic.
  The comparison \<open>< 0\<close> is on the unsigned field.
\<close>

definition monitor_timer_callback ::
  "64 word \<Rightarrow> u32 \<Rightarrow> auto_monitor_data \<Rightarrow> auto_monitor_data" where
  "monitor_timer_callback now rnd s =
     (let s1 = s\<lparr>last_check_time := now\<rparr>;
          s2 = s1\<lparr>timer_ticks := timer_ticks s1 + 1\<rparr>;
          s3 = (if sint (timer_ticks s2) smod 10 = 0 then
                  (let s' = s2\<lparr>current_sim_workload_level :=
                               current_sim_workload_level s2 + ucast (rnd mod 20) - 10\<rparr>
                   in if current_sim_workload_level s' > MAX_WORKLOAD_LEVEL
                        then s'\<lparr>current_sim_workload_level := MAX_WORKLOAD_LEVEL\<rparr>
                      else if current_sim_workload_level s' < 0
                        then s'\<lparr>current_sim_workload_level := 0\<rparr>
                      else s')
                else s2);
          s4 = s3\<lparr>simulated_gpu_temp := 50 + current_sim_workload_level s3 div 2\<rparr>;
          s5 = s4\<lparr>simulated_memory_pressure := (current_sim_workload_level s4 * 2) div 3\<rparr>
      in schedule_work s5)"

section \<open>Initial state\<close>

text \<open>The state that \<open>auto_monitor_init\<close> sets up: \<open>memset\<close> to zero, then the assignments.\<close>

definition auto_monitor_init :: auto_monitor_data where
  "auto_monitor_init =
     \<lparr>last_check_time = 0,
      current_sim_workload_level = 0,
      resource_allocation_factor = 5,
      critical_alerts = 0,
      timer_ticks = 0,
      simulated_gpu_temp = 50,
      simulated_memory_pressure = 0,
      work_pending = False\<rparr>"

section \<open>Parsing the written text\<close>

text \<open>
  \<open>kstrtoul\<close> is a routine of the kernel library (lib/kstrtox.c), not of this module; both
  callers pass base 10. The model follows the library: an optional leading \<open>+\<close>, then
  \<open>_parse_integer\<close> consumes digits while they are below the base, accumulating in an
  \<open>unsigned long long\<close> and recording an overflow; overflow gives \<open>-ERANGE\<close>, no digit
  gives \<open>-EINVAL\<close>; one newline after the digits is skipped and anything left gives
  \<open>-EINVAL\<close>. Buffers reaching it here are at most a page long, so the library's limit of
  \<open>INT_MAX\<close> characters is never met.
\<close>

definition digit_of :: "char \<Rightarrow> nat option" where
  "digit_of ch =
     (let c = (of_char ch :: nat); lc = c OR 32
      in if 48 \<le> c \<and> c \<le> 57 then Some (c - 48)
         else if 97 \<le> lc \<and> lc \<le> 102 then Some (lc - 97 + 10)
         else None)"

definition ULLONG_MAX :: ulong where
  "ULLONG_MAX = NOT 0"

fun parse_integer :: "string \<Rightarrow> ulong \<Rightarrow> nat \<Rightarrow> bool \<Rightarrow> ulong \<times> nat \<times> bool" where
  "parse_integer [] res rv ovf = (res, rv, ovf)"
| "parse_integer (ch # s) res rv ovf =
     (case digit_of ch of
        None \<Rightarrow> (res, rv, ovf)
      | Some val \<Rightarrow>
          if val \<ge> 10 then (res, rv, ovf)
          else
            (let ovf' = (if res AND push_bit 60 (NOT 0) \<noteq> 0
                         then (if res > (ULLONG_MAX - of_nat val) div 10 then True else ovf)
                         else ovf)
             in parse_integer s (res * 10 + of_nat val) (rv + 1) ovf'))"

definition kstrtoul :: "string \<Rightarrow> errno + ulong" where
  "kstrtoul s =
     (let s1 = (case s of [] \<Rightarrow> s | c # t \<Rightarrow> if c = CHR ''+'' then t else s)
      in case parse_integer s1 0 0 False of
           (res, rv, ovf) \<Rightarrow>
             if ovf then Inl ERANGE
             else if rv = 0 then Inl EINVAL
             else
               (let s2 = drop rv s1;
                    s3 = (case s2 of [] \<Rightarrow> s2 | c # t \<Rightarrow> if c = CHR 0x0A then t else s2)
                in if s3 \<noteq> [] then Inl EINVAL else Inr res))"

text \<open>A buffer read as a C string: the bytes before the first NUL.\<close>

definition c_str :: "string \<Rightarrow> string" where
  "c_str bytes = takeWhile (\<lambda>c. c \<noteq> CHR 0x00) bytes"

section \<open>Attribute store and device write\<close>

text \<open>
  \<open>workload_store\<close>: \<open>buf\<close> holds the \<open>count\<close> bytes written, NUL-terminated by sysfs.
\<close>

definition workload_store ::
  "string \<Rightarrow> auto_monitor_data \<Rightarrow> (errno + nat) \<times> auto_monitor_data" where
  "workload_store buf s =
     (case kstrtoul (c_str buf) of
        Inl e \<Rightarrow> (Inl EINVAL, s)
      | Inr v \<Rightarrow>
          (let new_workload = (if v > MAX_WORKLOAD_LEVEL then MAX_WORKLOAD_LEVEL
                               else if v < 0 then 0 else v);
               s1 = s\<lparr>current_sim_workload_level := new_workload\<rparr>;
               s2 = s1\<lparr>simulated_gpu_temp := 50 + new_workload div 2\<rparr>;
               s3 = s2\<lparr>simulated_memory_pressure := (new_workload * 2) div 3\<rparr>
           in (Inr (length buf), schedule_work s3)))"

text \<open>
  The user buffer handed to \<open>auto_monitor_write\<close>: \<open>len\<close> bytes that \<open>copy_from_user\<close>
  can read, or \<open>len\<close> bytes at an address where the copy faults.
\<close>

datatype user_buf = Readable string | Faulting nat

fun user_len :: "user_buf \<Rightarrow> nat" where
  "user_len (Readable bytes) = length bytes"
| "user_len (Faulting len) = len"

definition auto_monitor_write ::
  "user_buf \<Rightarrow> auto_monitor_data \<Rightarrow> (errno + nat) \<times> auto_monitor_data" where
  "auto_monitor_write ubuf s =
     (if user_len ubuf > 256 - 1 then (Inl EINVAL, s)
      else case ubuf of
        Faulting len \<Rightarrow> (Inl EFAULT, s)
      | Readable kbuf \<Rightarrow>
          (case kstrtoul (c_str kbuf) of
             Inl e \<Rightarrow> (Inl EINVAL, s)
           | Inr v \<Rightarrow>
               (let val = (if v > MAX_WORKLOAD_LEVEL then MAX_WORKLOAD_LEVEL
                           else if v < 0 then 0 else v);
                    s1 = s\<lparr>current_sim_workload_level := val\<rparr>;
                    s2 = s1\<lparr>simulated_gpu_temp := 50 + val div 2\<rparr>;
                    s3 = s2\<lparr>simulated_memory_pressure := (val * 2) div 3\<rparr>
                in (Inr (length kbuf), schedule_work s3))))"

section \<open>Device read\<close>

text \<open>Decimal rendering, as \<open>%lu\<close> and \<open>%d\<close> print it.\<close>

fun dec :: "nat \<Rightarrow> string" where
  "dec n = (if n < 10 then [char_of (48 + n)]
            else dec (n div 10) @ [char_of (48 + n mod 10)])"

declare dec.simps [simp del]

definition fmt_lu :: "ulong \<Rightarrow> string" where
  "fmt_lu w = dec (unat w)"

definition fmt_d :: "atomic_t \<Rightarrow> string" where
  "fmt_d w = (if sint w < 0 then CHR ''-'' # dec (nat (- sint w)) else dec (nat (sint w)))"

definition summary_text :: "auto_monitor_data \<Rightarrow> string" where
  "summary_text s =
     ''Workload: '' @ fmt_lu (current_sim_workload_level s) @ [CHR ''%'', CHR 0x0A] @
     ''Resource Factor: '' @ fmt_lu (resource_allocation_factor s) @ [CHR 0x0A] @
     ''Critical Alerts: '' @ fmt_d (critical_alerts s) @ [CHR 0x0A] @
     ''Simulated GPU Temp: '' @ fmt_lu (simulated_gpu_temp s) @ [CHR ''C'', CHR 0x0A] @
     ''Simulated Memory Pressure: '' @ fmt_lu (simulated_memory_pressure s) @
       [CHR ''%'', CHR 0x0A] @
     ''Timer Ticks: '' @ fmt_d (timer_ticks s) @ [CHR 0x0A]"

text \<open>
  \<open>auto_monitor_read\<close>: \<open>snprintf\<close> stores at most 255 characters in \<open>summary_buf\<close> and
  returns the length of the whole text. The result is the bytes copied to the caller and
  the new file offset; \<open>writable\<close> says whether \<open>copy_to_user\<close> succeeds. The monitor
  state is only read.
\<close>

definition auto_monitor_read ::
  "bool \<Rightarrow> nat \<Rightarrow> nat \<Rightarrow> auto_monitor_data \<Rightarrow> (errno + string) \<times> nat" where
  "auto_monitor_read writable len offset s =
     (let summary_buf = take 255 (summary_text s);
          len_summary = length (summary_text s)
      in if offset \<ge> len_summary then (Inr [], offset)
         else
           (let bytes_to_copy = min (len_summary - offset) len
            in if \<not> writable then (Inl EFAULT, offset)
               else (Inr (take bytes_to_copy (drop offset summary_buf)),
                     offset + bytes_to_copy)))"

section \<open>The system as a transition system\<close>

text \<open>
  Every operation runs its updates inside one critical section of the lock that guards
  the fields it touches, so each is one atomic step. The worker dequeues the work item
  (clearing the pending bit) and runs the handler; the relation lets it run at any time,
  which only adds states.
\<close>

inductive reachable :: "auto_monitor_data \<Rightarrow> bool" where
  reach_init: "reachable auto_monitor_init"
| reach_tick: "reachable s \<Longrightarrow> reachable (monitor_timer_callback now rnd s)"
| reach_work: "reachable s \<Longrightarrow> reachable (monitor_work_handler (s\<lparr>work_pending := False\<rparr>))"
| reach_write: "reachable s \<Longrightarrow> reachable (snd (auto_monitor_write ubuf s))"
| reach_store: "reachable s \<Longrightarrow> reachable (snd (workload_store buf s))"

section \<open>Decimal text, as the interface description reads it\<close>

text \<open>
  A decimal numeral as a caller writes it: an optional \<open>+\<close>, one or more digits, an
  optional final newline; and the number it denotes.
\<close>

definition is_digit :: "char \<Rightarrow> bool" where
  "is_digit c = (48 \<le> (of_char c :: nat) \<and> (of_char c :: nat) \<le> 57)"

definition numeral_digits :: "string \<Rightarrow> string" where
  "numeral_digits p =
     (let q = (case p of [] \<Rightarrow> p | c # t \<Rightarrow> if c = CHR ''+'' then t else p)
      in if q \<noteq> [] \<and> last q = CHR 0x0A then butlast q else q)"

definition decimal_text :: "string \<Rightarrow> bool" where
  "decimal_text p = (numeral_digits p \<noteq> [] \<and> list_all is_digit (numeral_digits p))"

definition digits_value :: "string \<Rightarrow> nat" where
  "digits_value ds = foldl (\<lambda>a c. 10 * a + (of_char c - 48)) 0 ds"

definition text_value :: "string \<Rightarrow> nat" where
  "text_value p = digits_value (numeral_digits p)"

section \<open>Auxiliary notions for the proofs\<close>

text \<open>
  What both write paths do to the state once the parsed value \<open>v\<close> has been clamped:
  the three fast-tier fields are set from \<open>v\<close> and the work item is queued.
\<close>

definition set_workload :: "ulong \<Rightarrow> auto_monitor_data \<Rightarrow> auto_monitor_data" where
  "set_workload v s =
     schedule_work (s\<lparr>current_sim_workload_level := v,
                      simulated_gpu_temp := 50 + v div 2,
                      simulated_memory_pressure := (v * 2) div 3\<rparr>)"

text \<open>The text after an optional leading plus sign.\<close>

definition skip_plus :: "string \<Rightarrow> string" where
  "skip_plus s = (case s of [] \<Rightarrow> s | c # t \<Rightarrow> if c = CHR ''+'' then t else s)"

text \<open>The number reached from \<open>v\<close> by appending the digits \<open>ds\<close>, without any bound.\<close>

definition digits_from :: "nat \<Rightarrow> string \<Rightarrow> nat" where
  "digits_from v ds = foldl (\<lambda>a c. 10 * a + (of_char c - 48)) v ds"

text \<open>The two invariants of the state.\<close>

definition fast_tier_ok :: "auto_monitor_data \<Rightarrow> bool" where
  "fast_tier_ok s =
     (current_sim_workload_level s \<le> 100 \<and>
      simulated_gpu_temp s = 50 + current_sim_workload_level s div 2 \<and>
      simulated_memory_pressure s = (current_sim_workload_level s * 2) div 3)"

definition factor_ok :: "auto_monitor_data \<Rightarrow> bool" where
  "factor_ok s = (1 \<le> resource_allocation_factor s \<and> resource_allocation_factor s \<le> 10)"

section \<open>The adjustment engine\<close>

lemma unat_rf_inc: "(r :: ulong) < 10 \<Longrightarrow> unat (r + 1) = unat r + 1"
  by (simp add: unat_word_ariths word_less_nat_alt)

lemma unat_rf_dec: "(1 :: ulong) < r \<Longrightarrow> unat (r - 1) = unat r - 1"
  by (simp add: unat_sub word_le_nat_alt word_less_nat_alt)

text \<open>
  C1. One pass of the adjustment engine on workload w and resource factor r: when
  w > 80 and r < 10 the new factor is r + 1; otherwise when w < 20 and r > 1 it is
  r - 1; in every other case it is r. The values are read as unsigned integers, so the
  sum and the difference are the exact ones.
\<close>

theorem adjustment_policy:
  "unat (resource_allocation_factor (monitor_work_handler s)) =
     (if 80 < unat (current_sim_workload_level s) \<and> unat (resource_allocation_factor s) < 10
        then unat (resource_allocation_factor s) + 1
      else if unat (current_sim_workload_level s) < 20 \<and> 1 < unat (resource_allocation_factor s)
        then unat (resource_allocation_factor s) - 1
      else unat (resource_allocation_factor s))"
  by (simp add: monitor_work_handler_def MAX_RESOURCE_FACTOR_def Let_def
      unat_rf_inc unat_rf_dec word_less_nat_alt)

lemma handler_wl [simp]:
  "current_sim_workload_level (monitor_work_handler s) = current_sim_workload_level s"
  by (simp add: monitor_work_handler_def Let_def)

lemma rf_eq_9_iff: "((r :: ulong) + 1 = 10) = (unat r = 9)"
proof
  assume "r + 1 = 10"
  then have "r = 9" by (simp add: eq_diff_eq [symmetric])
  then show "unat r = 9" by simp
next
  assume "unat r = 9"
  then have "r = 9" by (simp add: word_unat_eq_iff)
  then show "r + 1 = 10" by simp
qed

text \<open>One pass under high workload: the factor moves up unless it is 10, and the alert
  counter moves exactly when the factor was 9.\<close>

lemma handler_high_unat:
  assumes "80 < unat (current_sim_workload_level s)"
  shows "unat (resource_allocation_factor (monitor_work_handler s)) =
           (if unat (resource_allocation_factor s) < 10
            then unat (resource_allocation_factor s) + 1
            else unat (resource_allocation_factor s))"
    and "critical_alerts (monitor_work_handler s) =
           (if unat (resource_allocation_factor s) = 9 then critical_alerts s + 1
            else critical_alerts s)"
  using assms
  by (simp_all add: monitor_work_handler_def Let_def MAX_RESOURCE_FACTOR_def
      word_less_nat_alt unat_rf_inc rf_eq_9_iff)

lemma set_workload_fields [simp]:
  "current_sim_workload_level (set_workload v s) = v"
  "simulated_gpu_temp (set_workload v s) = 50 + v div 2"
  "simulated_memory_pressure (set_workload v s) = (v * 2) div 3"
  "resource_allocation_factor (set_workload v s) = resource_allocation_factor s"
  "critical_alerts (set_workload v s) = critical_alerts s"
  "timer_ticks (set_workload v s) = timer_ticks s"
  "work_pending (set_workload v s)"
  by (simp_all add: set_workload_def schedule_work_def)

text \<open>
  C2. Alerts are edge-triggered. From a state with workload above 80 and resource
  factor r below 10, run n passes of the engine with the workload held. The factor
  after n passes is min 10 (r + n), so it first reaches 10 on pass number 10 - r. The
  alert counter is unchanged after every pass before that one, and is the old counter
  plus one after that pass and after every later pass: it moves by one on the pass
  that reaches 10 and by nothing on the passes that follow. The counter is the 32-bit
  \<open>atomic_t\<close> and the addition is the one \<open>atomic_inc\<close> performs on it.
\<close>

theorem alert_edge_triggered:
  assumes wl: "80 < unat (current_sim_workload_level s)"
    and rf: "unat (resource_allocation_factor s) < 10"
  shows "current_sim_workload_level ((monitor_work_handler ^^ n) s) = current_sim_workload_level s
         \<and> unat (resource_allocation_factor ((monitor_work_handler ^^ n) s)) =
           min 10 (unat (resource_allocation_factor s) + n)
         \<and> critical_alerts ((monitor_work_handler ^^ n) s) =
           (if n < 10 - unat (resource_allocation_factor s) then critical_alerts s
            else critical_alerts s + 1)"
proof (induction n)
  case 0
  then show ?case using rf by simp
next
  case (Suc n)
  let ?t = "(monitor_work_handler ^^ n) s"
  have w: "80 < unat (current_sim_workload_level ?t)"
    using Suc wl by simp
  show ?case using Suc rf
    by (simp add: handler_high_unat [OF w] min_def) arith
qed

text \<open>
  The scenario of the specification: factor 5, workload raised to 90. After four passes
  the factor is 9 and no alert has fired; the fifth pass reaches 10 and fires one alert;
  after eight passes the counter is still 1.
\<close>

theorem alert_edge_triggered_witness:
  "80 < unat (current_sim_workload_level (set_workload 90 auto_monitor_init)) \<and>
   unat (resource_allocation_factor (set_workload 90 auto_monitor_init)) < 10 \<and>
   unat (resource_allocation_factor
     ((monitor_work_handler ^^ 4) (set_workload 90 auto_monitor_init))) = 9 \<and>
   critical_alerts ((monitor_work_handler ^^ 4) (set_workload 90 auto_monitor_init)) = 0 \<and>
   unat (resource_allocation_factor
     ((monitor_work_handler ^^ 5) (set_workload 90 auto_monitor_init))) = 10 \<and>
   critical_alerts ((monitor_work_handler ^^ 5) (set_workload 90 auto_monitor_init)) = 1 \<and>
   critical_alerts ((monitor_work_handler ^^ 8) (set_workload 90 auto_monitor_init)) = 1"
proof -
  let ?s = "set_workload 90 auto_monitor_init"
  have w: "80 < unat (current_sim_workload_level ?s)"
    by simp
  have r: "unat (resource_allocation_factor ?s) < 10"
    by (simp add: auto_monitor_init_def)
  have f: "unat (resource_allocation_factor auto_monitor_init) = 5"
    and g: "critical_alerts auto_monitor_init = 0"
    by (simp_all add: auto_monitor_init_def)
  show ?thesis
    using w r alert_edge_triggered [OF w r, of 4] alert_edge_triggered [OF w r, of 5]
      alert_edge_triggered [OF w r, of 8]
    by (simp add: f g)
qed

section \<open>What the parser accepts\<close>

lemma digit_of_cases:
  "(case digit_of c of None \<Rightarrow> A | Some v \<Rightarrow> if v \<ge> 10 then A else B v) =
     (if is_digit c then B (of_char c - 48) else A)"
  by (auto simp add: digit_of_def is_digit_def Let_def)

lemma is_digit_val: "is_digit c \<Longrightarrow> (of_char c :: nat) - 48 < 10"
  by (auto simp add: is_digit_def)

text \<open>The mask test of the parser singles out the accumulators of at least \<open>2 ^ 60\<close>.\<close>

lemma high_bits_iff: "((res :: 64 word) AND push_bit 60 (NOT 0) \<noteq> 0) = (2 ^ 60 \<le> unat res)"
proof -
  have "(res AND NOT (mask 60) = 0) = (take_bit 60 res = res)"
    by (auto simp add: bit_eq_iff bit_simps)
  also have "\<dots> = (take_bit 60 (unat res) = unat res)"
    by (simp add: word_unat_eq_iff unsigned_take_bit_eq)
  also have "\<dots> = (unat res < 2 ^ 60)"
    by (simp add: take_bit_nat_eq_self_iff)
  finally show ?thesis by auto
qed

text \<open>The division test is exact: it holds when the next digit does not fit 64 bits.\<close>

lemma ovf_test_iff:
  assumes d: "d < 10"
  shows "((res :: 64 word) > (ULLONG_MAX - of_nat d) div 10) = (2 ^ 64 \<le> unat res * 10 + d)"
proof -
  have m: "unat (ULLONG_MAX :: 64 word) = 2 ^ 64 - 1"
    by (simp add: ULLONG_MAX_def unsigned_minus_1_eq_mask mask_eq_exp_minus_1)
  have dd: "unat (of_nat d :: 64 word) = d"
    using d by (simp add: unat_of_nat)
  have "unat (ULLONG_MAX - of_nat d :: 64 word) = 2 ^ 64 - 1 - d"
    using d m dd by (simp add: unat_sub word_le_nat_alt)
  then have "unat ((ULLONG_MAX - of_nat d) div 10 :: 64 word) = (2 ^ 64 - 1 - d) div 10"
    by (simp add: unat_div)
  then show ?thesis using d
    by (simp add: word_less_nat_alt) arith
qed

lemma parse_integer_Cons:
  "parse_integer (c # s) res rv ovf =
     (if is_digit c
      then parse_integer s (res * 10 + of_nat (of_char c - 48)) (rv + 1)
             (ovf \<or> 2 ^ 64 \<le> unat res * 10 + (of_char c - 48))
      else (res, rv, ovf))"
proof (cases "is_digit c")
  case False
  then show ?thesis by (simp add: digit_of_cases)
next
  case True
  let ?d = "of_char c - 48 :: nat"
  have d: "?d < 10" using True by (rule is_digit_val)
  have "(if res AND push_bit 60 (NOT 0) \<noteq> 0
         then (if res > (ULLONG_MAX - of_nat ?d) div 10 then True else ovf)
         else ovf) = (ovf \<or> 2 ^ 64 \<le> unat res * 10 + ?d)"
    using d unfolding high_bits_iff ovf_test_iff [OF d] by auto
  then show ?thesis using True by (simp add: digit_of_cases Let_def)
qed

declare parse_integer.simps(2) [simp del]

lemma digits_from_simps [simp]:
  "digits_from v [] = v"
  "digits_from v (c # ds) = digits_from (10 * v + (of_char c - 48)) ds"
  by (simp_all add: digits_from_def)

lemma digits_from_append:
  "digits_from v (xs @ ys) = digits_from (digits_from v xs) ys"
  by (simp add: digits_from_def)

text \<open>
  The loop stops at the first character that is no digit. When it starts from the number
  \<open>v\<close> with a flag that tells whether \<open>v\<close> exceeds 64 bits, it ends with the number
  denoted so far, reduced modulo \<open>2 ^ 64\<close>, and with the flag that tells whether that
  number exceeds 64 bits.
\<close>

lemma parse_integer_digits:
  "res = of_nat v \<Longrightarrow> ovf = (2 ^ 64 \<le> v) \<Longrightarrow>
   parse_integer s res rv ovf =
     (of_nat (digits_from v (takeWhile is_digit s)),
      rv + length (takeWhile is_digit s),
      2 ^ 64 \<le> digits_from v (takeWhile is_digit s))"
proof (induction s arbitrary: res v rv ovf)
  case Nil
  then show ?case by simp
next
  case (Cons c s)
  show ?case
  proof (cases "is_digit c")
    case False
    then show ?thesis using Cons.prems by (simp add: parse_integer_Cons)
  next
    case True
    let ?d = "of_char c - 48 :: nat"
    let ?v = "10 * v + ?d"
    have r: "res * 10 + of_nat ?d = (of_nat ?v :: 64 word)"
      using Cons.prems(1) by (simp add: mult.commute)
    have o: "(ovf \<or> 2 ^ 64 \<le> unat res * 10 + ?d) = (2 ^ 64 \<le> ?v)"
    proof (cases "v < 2 ^ 64")
      case True
      then have "unat res = v" using Cons.prems(1) by (simp add: unat_of_nat)
      then show ?thesis using True Cons.prems(2) by (simp add: mult.commute)
    next
      case False
      then show ?thesis using Cons.prems(2) by simp
    qed
    show ?thesis
      using True Cons.IH [OF r o]
      by (simp add: parse_integer_Cons o)
  qed
qed

lemma not_digit_newline [simp]: "\<not> is_digit (CHR 0x0A)"
  by (simp add: is_digit_def)

text \<open>The parser, case by case, on the digits it finds and what follows them.\<close>

lemma kstrtoul_char:
  "kstrtoul s =
     (let ds = takeWhile is_digit (skip_plus s); rest = dropWhile is_digit (skip_plus s)
      in if 2 ^ 64 \<le> digits_from 0 ds then Inl ERANGE
         else if ds = [] then Inl EINVAL
         else if rest = [] \<or> rest = [CHR 0x0A] then Inr (of_nat (digits_from 0 ds))
         else Inl EINVAL)"
proof -
  have p: "parse_integer (skip_plus s) 0 0 False =
     (of_nat (digits_from 0 (takeWhile is_digit (skip_plus s))),
      0 + length (takeWhile is_digit (skip_plus s)),
      2 ^ 64 \<le> digits_from 0 (takeWhile is_digit (skip_plus s)))"
    by (rule parse_integer_digits) simp_all
  have d: "drop (length (takeWhile is_digit (skip_plus s))) (skip_plus s) =
           dropWhile is_digit (skip_plus s)"
    by (simp add: dropWhile_eq_drop)
  show ?thesis
  proof (cases "dropWhile is_digit (skip_plus s)")
    case Nil
    then show ?thesis
      unfolding kstrtoul_def skip_plus_def [symmetric] Let_def p
      by (simp add: d del: dropWhile_eq_Nil_conv)
  next
    case (Cons c t)
    then show ?thesis
      unfolding kstrtoul_def skip_plus_def [symmetric] Let_def p
      by (simp add: d del: dropWhile_eq_Nil_conv)
  qed
qed

lemma numeral_digits_alt:
  "numeral_digits p =
     (if skip_plus p \<noteq> [] \<and> last (skip_plus p) = CHR 0x0A then butlast (skip_plus p)
      else skip_plus p)"
  by (simp add: numeral_digits_def skip_plus_def Let_def)

lemma decimal_text_split:
  assumes "decimal_text p"
  shows "takeWhile is_digit (skip_plus p) = numeral_digits p \<and>
         (dropWhile is_digit (skip_plus p) = [] \<or> dropWhile is_digit (skip_plus p) = [CHR 0x0A])"
proof (cases "skip_plus p \<noteq> [] \<and> last (skip_plus p) = CHR 0x0A")
  case True
  then have n: "numeral_digits p = butlast (skip_plus p)"
    by (simp add: numeral_digits_alt)
  have sp: "skip_plus p = numeral_digits p @ [CHR 0x0A]"
    using True n by (metis append_butlast_last_id)
  have all: "\<forall>x\<in>set (numeral_digits p). is_digit x"
    using assms by (simp add: decimal_text_def list_all_iff)
  have "takeWhile is_digit (numeral_digits p @ [CHR 0x0A]) = numeral_digits p"
    using all by (simp add: takeWhile_append2)
  moreover have "dropWhile is_digit (numeral_digits p @ [CHR 0x0A]) = [CHR 0x0A]"
    using all by (simp add: dropWhile_append2)
  ultimately show ?thesis by (simp add: sp [symmetric])
next
  case False
  then have n: "numeral_digits p = skip_plus p"
    by (auto simp add: numeral_digits_alt)
  have all: "\<forall>x\<in>set (skip_plus p). is_digit x"
    using assms n by (simp add: decimal_text_def list_all_iff)
  then show ?thesis using n
    by (simp add: takeWhile_eq_all_conv [THEN iffD2] dropWhile_eq_Nil_conv [THEN iffD2])
qed

text \<open>A decimal numeral is parsed to its value when that fits 64 bits, and is out of
  range otherwise.\<close>

lemma kstrtoul_decimal:
  assumes "decimal_text p"
  shows "kstrtoul p = (if text_value p < 2 ^ 64 then Inr (of_nat (text_value p)) else Inl ERANGE)"
proof -
  have ne: "numeral_digits p \<noteq> []" using assms by (simp add: decimal_text_def)
  have tv: "text_value p = digits_from 0 (numeral_digits p)"
    by (simp add: text_value_def digits_value_def digits_from_def)
  show ?thesis
    using decimal_text_split [OF assms] ne
    by (auto simp add: kstrtoul_char Let_def tv)
qed

text \<open>Nothing but a decimal numeral is parsed.\<close>

lemma kstrtoul_accepts:
  assumes "kstrtoul p = Inr v"
  shows "decimal_text p \<and> text_value p < 2 ^ 64 \<and> v = of_nat (text_value p)"
proof -
  let ?ds = "takeWhile is_digit (skip_plus p)"
  let ?rest = "dropWhile is_digit (skip_plus p)"
  from assms have lt: "digits_from 0 ?ds < 2 ^ 64" and ne: "?ds \<noteq> []"
    and rest: "?rest = [] \<or> ?rest = [CHR 0x0A]" and v: "v = of_nat (digits_from 0 ?ds)"
    by (auto simp add: kstrtoul_char Let_def split: if_splits)
  have sp: "skip_plus p = ?ds @ ?rest" by simp
  have nd: "numeral_digits p = ?ds"
  proof (cases "?rest = []")
    case True
    then have e: "skip_plus p = ?ds" using sp by (metis append_Nil2)
    have "is_digit (last ?ds)" using ne
      by (metis last_in_set set_takeWhileD)
    then have "last (skip_plus p) \<noteq> CHR 0x0A" using e by (metis not_digit_newline)
    then show ?thesis using e by (simp add: numeral_digits_alt)
  next
    case False
    then have e: "skip_plus p = ?ds @ [CHR 0x0A]" using sp rest by metis
    show ?thesis unfolding numeral_digits_alt by (subst (1 2 3) e) simp
  qed
  have "list_all is_digit ?ds"
    by (simp add: list_all_iff) (metis set_takeWhileD)
  then show ?thesis using nd ne lt v
    by (simp add: decimal_text_def text_value_def digits_value_def digits_from_def)
qed

section \<open>Decimal rendering\<close>

lemma dec_digits: "list_all is_digit (dec n) \<and> dec n \<noteq> []"
proof (induction n rule: dec.induct)
  case (1 n)
  show ?case
  proof (cases "n < 10")
    case True
    then show ?thesis by (subst (1 2) dec.simps) (simp add: is_digit_def)
  next
    case False
    have "n mod 10 < 10" by simp
    then have "is_digit (char_of (48 + n mod 10))"
      by (simp add: is_digit_def)
    then show ?thesis using False 1 by (subst (1 2) dec.simps) simp
  qed
qed

lemma digits_from_dec: "digits_from 0 (dec n) = n"
proof (induction n rule: dec.induct)
  case (1 n)
  show ?case
  proof (cases "n < 10")
    case True
    then show ?thesis by (subst dec.simps) simp
  next
    case False
    then show ?thesis using 1 by (subst dec.simps) (simp add: digits_from_append)
  qed
qed

lemma digits_no_nul: "list_all is_digit ds \<Longrightarrow> c_str ds = ds"
  unfolding c_str_def
  by (rule takeWhile_eq_all_conv [THEN iffD2]) (auto simp add: list_all_iff is_digit_def)

lemma digits_numeral:
  assumes "list_all is_digit ds"
  shows "numeral_digits ds = ds"
proof (cases ds)
  case Nil
  then show ?thesis by (simp add: numeral_digits_alt skip_plus_def)
next
  case (Cons c t)
  then have "is_digit c" using assms by simp
  then have "c \<noteq> CHR ''+''" by (auto simp add: is_digit_def)
  then have sp: "skip_plus ds = ds" using Cons by (simp add: skip_plus_def)
  have "is_digit (last ds)"
    using assms Cons by (metis last_in_set list.distinct(1) list_all_iff)
  then have "last ds \<noteq> CHR 0x0A" by (auto simp add: is_digit_def)
  then show ?thesis by (simp add: numeral_digits_alt sp)
qed

lemma dec_text: "c_str (dec n) = dec n" "decimal_text (dec n)" "text_value (dec n) = n"
  using dec_digits [of n] digits_from_dec [of n]
  by (simp_all add: digits_no_nul decimal_text_def digits_numeral text_value_def
      digits_value_def digits_from_def)

text \<open>Writing a number in decimal and parsing it gives the number back.\<close>

lemma kstrtoul_dec: "n < 2 ^ 64 \<Longrightarrow> kstrtoul (c_str (dec n)) = Inr (of_nat n)"
  by (simp add: dec_text kstrtoul_decimal)

lemma dec_length: "n < 10 ^ k \<Longrightarrow> 0 < k \<Longrightarrow> length (dec n) \<le> k"
proof (induction n arbitrary: k rule: dec.induct)
  case (1 n)
  show ?case
  proof (cases "n < 10")
    case True
    then show ?thesis using 1(3) by (subst dec.simps) simp
  next
    case False
    obtain j where k: "k = Suc j" using 1(3) by (cases k) auto
    have "j \<noteq> 0" using False 1(2) k by (cases j) auto
    moreover have "n div 10 < 10 ^ j"
      using 1(2) k by (simp add: less_mult_imp_div_less mult.commute)
    ultimately have "length (dec (n div 10)) \<le> j" using 1(1) [OF False, of j] by simp
    then show ?thesis using False k by (subst dec.simps) simp
  qed
qed

lemma fmt_lu_length: "length (fmt_lu w) \<le> 20"
proof -
  have "unat w < 2 ^ 64" using unsigned_less [of w] by simp
  then have "unat w < 10 ^ 20" by simp
  then show ?thesis unfolding fmt_lu_def by (rule dec_length) simp
qed

lemma fmt_d_length: "length (fmt_d w) \<le> 11"
proof -
  have lo: "- (2 ^ 31) \<le> sint w" using sint_ge [of w] by simp
  have hi: "sint w < 2 ^ 31" using sint_lt [of w] by simp
  have a: "nat (- sint w) < 10 ^ 10" using lo by simp
  have b: "nat (sint w) < 10 ^ 10" using hi by simp
  show ?thesis
    using dec_length [OF a] dec_length [OF b] by (simp add: fmt_d_def)
qed

text \<open>The summary always fits the 256-byte buffer, so \<open>snprintf\<close> never cuts it.\<close>

lemma summary_length: "length (summary_text s) \<le> 255"
  using fmt_lu_length [of "current_sim_workload_level s"]
    fmt_lu_length [of "resource_allocation_factor s"]
    fmt_lu_length [of "simulated_gpu_temp s"]
    fmt_lu_length [of "simulated_memory_pressure s"]
    fmt_d_length [of "critical_alerts s"]
    fmt_d_length [of "timer_ticks s"]
  by (simp add: summary_text_def)

lemma full_read:
  "255 \<le> len \<Longrightarrow>
   auto_monitor_read True len 0 s = (Inr (summary_text s), length (summary_text s))"
  using summary_length [of s]
  by (simp add: auto_monitor_read_def Let_def min_def)

section \<open>The two write paths\<close>

lemma store_accept:
  "kstrtoul (c_str p) = Inr v \<Longrightarrow>
   workload_store p s = (Inr (length p), set_workload (if 100 < v then 100 else v) s)"
  by (simp add: workload_store_def set_workload_def Let_def MAX_WORKLOAD_LEVEL_def)

lemma write_accept:
  "kstrtoul (c_str p) = Inr v \<Longrightarrow> length p \<le> 255 \<Longrightarrow>
   auto_monitor_write (Readable p) s =
     (Inr (length p), set_workload (if 100 < v then 100 else v) s)"
  by (simp add: auto_monitor_write_def set_workload_def Let_def MAX_WORKLOAD_LEVEL_def)

lemma store_reject:
  "kstrtoul (c_str p) = Inl e \<Longrightarrow> workload_store p s = (Inl EINVAL, s)"
  by (simp add: workload_store_def)

lemma write_reject:
  "kstrtoul (c_str p) = Inl e \<Longrightarrow> auto_monitor_write (Readable p) s = (Inl EINVAL, s)"
  by (simp add: auto_monitor_write_def)

lemma kstrtoul_50: "kstrtoul (c_str ''50'') = Inr 50"
  by code_simp

lemma kstrtoul_42: "kstrtoul (c_str ''42'') = Inr 42"
  by code_simp

lemma kstrtoul_minus_5: "kstrtoul (c_str ''-5'') = Inl EINVAL"
  by code_simp

lemma kstrtoul_two_to_64: "kstrtoul (c_str ''18446744073709551616'') = Inl ERANGE"
  by code_simp

section \<open>Invariants of the reachable states\<close>

lemma handler_fast: "fast_tier_ok (monitor_work_handler s) = fast_tier_ok s"
  by (simp add: fast_tier_ok_def monitor_work_handler_def Let_def)

lemma tick_fast: "fast_tier_ok s \<Longrightarrow> fast_tier_ok (monitor_timer_callback now rnd s)"
  by (simp add: fast_tier_ok_def monitor_timer_callback_def Let_def schedule_work_def
      MAX_WORKLOAD_LEVEL_def not_less)

lemma store_fast: "fast_tier_ok s \<Longrightarrow> fast_tier_ok (snd (workload_store buf s))"
  by (simp add: fast_tier_ok_def workload_store_def Let_def schedule_work_def
      MAX_WORKLOAD_LEVEL_def not_less split: sum.split)

lemma write_fast: "fast_tier_ok s \<Longrightarrow> fast_tier_ok (snd (auto_monitor_write ubuf s))"
  by (simp add: fast_tier_ok_def auto_monitor_write_def Let_def schedule_work_def
      MAX_WORKLOAD_LEVEL_def not_less split: sum.split user_buf.split)

lemma handler_factor: "factor_ok s \<Longrightarrow> factor_ok (monitor_work_handler s)"
  unfolding factor_ok_def monitor_work_handler_def Let_def MAX_RESOURCE_FACTOR_def
  by (auto simp add: word_le_nat_alt word_less_nat_alt unat_rf_inc unat_rf_dec)

lemma tick_factor: "factor_ok (monitor_timer_callback now rnd s) = factor_ok s"
  by (simp add: factor_ok_def monitor_timer_callback_def Let_def schedule_work_def)

lemma store_factor: "factor_ok (snd (workload_store buf s)) = factor_ok s"
  by (simp add: factor_ok_def workload_store_def Let_def schedule_work_def split: sum.split)

lemma write_factor: "factor_ok (snd (auto_monitor_write ubuf s)) = factor_ok s"
  by (simp add: factor_ok_def auto_monitor_write_def Let_def schedule_work_def
      split: sum.split user_buf.split)

lemma reachable_fast: "reachable s \<Longrightarrow> fast_tier_ok s"
proof (induction rule: reachable.induct)
  case reach_init
  show ?case by (simp add: fast_tier_ok_def auto_monitor_init_def)
next
  case (reach_work s)
  then show ?case by (simp add: handler_fast) (simp add: fast_tier_ok_def)
qed (simp_all add: tick_fast store_fast write_fast)

lemma reachable_factor: "reachable s \<Longrightarrow> factor_ok s"
proof (induction rule: reachable.induct)
  case reach_init
  show ?case by (simp add: factor_ok_def auto_monitor_init_def)
next
  case (reach_work s)
  then have "factor_ok (s\<lparr>work_pending := False\<rparr>)" by (simp add: factor_ok_def)
  then show ?case by (rule handler_factor)
qed (simp_all add: tick_factor store_factor write_factor)

text \<open>
  C3. The resource factor is 5 in the initial state, and in every state reached from it
  by timer firings, runs of the work handler, device writes and attribute stores, in any
  order and with any inputs, it lies between 1 and 10.
\<close>

theorem resource_factor_range:
  "resource_allocation_factor auto_monitor_init = 5 \<and>
   (reachable s \<longrightarrow>
      1 \<le> unat (resource_allocation_factor s) \<and> unat (resource_allocation_factor s) \<le> 10)"
  using reachable_factor [of s]
  by (simp add: auto_monitor_init_def factor_ok_def word_le_nat_alt)

text \<open>After the first timer firing the workload is 0, and the handler lowers the factor
  from 5 to 4.\<close>

theorem resource_factor_range_witness:
  "reachable (monitor_work_handler
     ((monitor_timer_callback 0 0 auto_monitor_init)\<lparr>work_pending := False\<rparr>)) \<and>
   unat (resource_allocation_factor (monitor_work_handler
     ((monitor_timer_callback 0 0 auto_monitor_init)\<lparr>work_pending := False\<rparr>))) = 4"
proof -
  have r: "reachable (monitor_work_handler
     ((monitor_timer_callback 0 0 auto_monitor_init)\<lparr>work_pending := False\<rparr>))"
    by (intro reach_work reach_tick reach_init)
  show ?thesis
    using r resource_factor_range [of "monitor_work_handler
      ((monitor_timer_callback 0 0 auto_monitor_init)\<lparr>work_pending := False\<rparr>)"]
    by (simp add: monitor_work_handler_def monitor_timer_callback_def auto_monitor_init_def
        Let_def schedule_work_def MAX_RESOURCE_FACTOR_def signed_modulo_int_def)
qed

text \<open>
  C4. In every reachable state (the initial one, and the state after each complete timer
  firing, handler run, device write or attribute store) the temperature is
  50 + workload / 2 and the memory pressure is (workload * 2) / 3, in integer
  arithmetic on the stored workload. Each operation updates the three fields inside one
  critical section of the spinlock and every read of them takes the same lock, so a
  reader sees the fields of one such state.
\<close>

theorem fast_tier_consistent:
  assumes "reachable s"
  shows "unat (simulated_gpu_temp s) = 50 + unat (current_sim_workload_level s) div 2 \<and>
         unat (simulated_memory_pressure s) = (unat (current_sim_workload_level s) * 2) div 3"
proof -
  from assms have f: "fast_tier_ok s" by (rule reachable_fast)
  then have le: "unat (current_sim_workload_level s) \<le> 100"
    by (simp add: fast_tier_ok_def word_le_nat_alt)
  have t: "unat (50 + current_sim_workload_level s div 2) =
           50 + unat (current_sim_workload_level s) div 2"
    using le by (simp add: unat_word_ariths unat_div)
  have m: "unat ((current_sim_workload_level s * 2) div 3) =
           (unat (current_sim_workload_level s) * 2) div 3"
    using le by (simp add: unat_word_ariths unat_div)
  show ?thesis using f t m by (simp add: fast_tier_ok_def)
qed

theorem fast_tier_consistent_witness:
  "reachable (snd (workload_store ''50'' auto_monitor_init)) \<and>
   unat (simulated_gpu_temp (snd (workload_store ''50'' auto_monitor_init))) = 75 \<and>
   unat (simulated_memory_pressure (snd (workload_store ''50'' auto_monitor_init))) = 33"
proof -
  have r: "reachable (snd (workload_store ''50'' auto_monitor_init))"
    by (intro reach_store reach_init)
  show ?thesis
    using r fast_tier_consistent [OF r] store_accept [OF kstrtoul_50, of auto_monitor_init]
    by simp
qed

section \<open>The sampler below a workload of 10\<close>

lemma funpow_9: "(f ^^ 9) x = f (f (f (f (f (f (f (f (f x))))))))"
  by (simp add: numeral_eq_Suc)

lemma funpow_10: "(f ^^ 10) x = f (f (f (f (f (f (f (f (f (f x)))))))))"
  by (simp add: numeral_eq_Suc)

text \<open>
  C8. The tenth firing of the sampler perturbs the workload by a delta between -10 and
  +10 and clamps the result to the range from 0 to 100; a downward excursion from a
  workload below 10 is to store 0. The code does not do this. Starting from the initial
  state (workload 0), nine firings leave the workload at 0; on the tenth, with the random
  number 0, the delta is -10, the unsigned sum wraps around to \<open>2 ^ 64 - 10\<close>, the test
  against 100 succeeds, and 100 is stored.
\<close>

theorem sampler_low_excursion_wraps:
  "current_sim_workload_level (((monitor_timer_callback 0 0) ^^ 9) auto_monitor_init) = 0 \<and>
   current_sim_workload_level (((monitor_timer_callback 0 0) ^^ 10) auto_monitor_init) = 100"
  unfolding funpow_9 funpow_10
  by (simp add: monitor_timer_callback_def auto_monitor_init_def Let_def schedule_work_def
      MAX_WORKLOAD_LEVEL_def signed_modulo_int_def)

section \<open>Writes through the device and the attribute\<close>

lemma dec_short: "w \<le> 100 \<Longrightarrow> length (dec w) \<le> 255"
  using dec_length [of w 3] by simp

lemma small_word: "w \<le> 100 \<Longrightarrow> unat (of_nat w :: ulong) = w"
  by (simp add: unat_of_nat)

lemma dec_vals: "dec 90 = ''90''" "dec 95 = ''95''" "dec 60 = ''60''" "dec 5 = ''5''"
  "dec 0 = ''0''"
  by code_simp+

text \<open>
  C5. For every w from 0 to 100, writing the decimal text of w (through the device, or
  through the attribute, with the same outcome) succeeds and leaves the workload at w,
  the temperature at 50 + w / 2 and the memory pressure at (w * 2) / 3, in integer
  division; a read of the device from offset 0 into a buffer of at least 255 bytes then
  returns the summary text with these three numbers in it, next to the resource factor,
  the alert count and the tick count, which the write does not touch.
\<close>

theorem write_then_read:
  assumes w: "w \<le> 100"
    and s': "s' = snd (auto_monitor_write (Readable (dec w)) s)"
  shows "auto_monitor_write (Readable (dec w)) s = (Inr (length (dec w)), s') \<and>
         workload_store (dec w) s = (Inr (length (dec w)), s') \<and>
         unat (current_sim_workload_level s') = w \<and>
         unat (simulated_gpu_temp s') = 50 + w div 2 \<and>
         unat (simulated_memory_pressure s') = (w * 2) div 3 \<and>
         (255 \<le> len \<longrightarrow>
            fst (auto_monitor_read True len 0 s') =
              Inr (''Workload: '' @ dec w @ [CHR ''%'', CHR 0x0A] @
                   ''Resource Factor: '' @ fmt_lu (resource_allocation_factor s) @ [CHR 0x0A] @
                   ''Critical Alerts: '' @ fmt_d (critical_alerts s) @ [CHR 0x0A] @
                   ''Simulated GPU Temp: '' @ dec (50 + w div 2) @ [CHR ''C'', CHR 0x0A] @
                   ''Simulated Memory Pressure: '' @ dec ((w * 2) div 3) @
                     [CHR ''%'', CHR 0x0A] @
                   ''Timer Ticks: '' @ fmt_d (timer_ticks s) @ [CHR 0x0A]))"
proof -
  have k: "kstrtoul (c_str (dec w)) = Inr (of_nat w)"
    using w by (intro kstrtoul_dec) simp
  have le: "\<not> (100 :: ulong) < of_nat w"
    using w by (simp add: word_less_nat_alt small_word)
  have wr: "auto_monitor_write (Readable (dec w)) s =
            (Inr (length (dec w)), set_workload (of_nat w) s)"
    using write_accept [OF k dec_short [OF w], of s] le by simp
  have st: "workload_store (dec w) s = (Inr (length (dec w)), set_workload (of_nat w) s)"
    using store_accept [OF k, of s] le by simp
  have e: "s' = set_workload (of_nat w) s" using s' wr by simp
  have u1: "unat (of_nat w :: ulong) = w" using w by (rule small_word)
  have u2: "unat (50 + (of_nat w :: ulong) div 2) = 50 + w div 2"
    using w by (simp add: unat_word_ariths unat_div u1)
  have u3: "unat (((of_nat w :: ulong) * 2) div 3) = (w * 2) div 3"
    using w by (simp add: unat_word_ariths unat_div u1)
  have body: "summary_text s' =
       ''Workload: '' @ dec w @ [CHR ''%'', CHR 0x0A] @
       ''Resource Factor: '' @ fmt_lu (resource_allocation_factor s) @ [CHR 0x0A] @
       ''Critical Alerts: '' @ fmt_d (critical_alerts s) @ [CHR 0x0A] @
       ''Simulated GPU Temp: '' @ dec (50 + w div 2) @ [CHR ''C'', CHR 0x0A] @
       ''Simulated Memory Pressure: '' @ dec ((w * 2) div 3) @ [CHR ''%'', CHR 0x0A] @
       ''Timer Ticks: '' @ fmt_d (timer_ticks s) @ [CHR 0x0A]"
    unfolding summary_text_def e
    by (simp add: fmt_lu_def u1 u2 u3)
  have rd: "255 \<le> len \<longrightarrow> fst (auto_monitor_read True len 0 s') = Inr (summary_text s')"
    by (simp add: full_read)
  note rd' = rd [unfolded body]
  have f1: "unat (current_sim_workload_level s') = w"
    and f2: "unat (simulated_gpu_temp s') = 50 + w div 2"
    and f3: "unat (simulated_memory_pressure s') = (w * 2) div 3"
    unfolding e by (simp_all add: u1 u2 u3)
  note wr' = wr [folded e] and st' = st [folded e]
  show ?thesis
    by (intro conjI) (rule wr' st' f1 f2 f3 rd')+
qed

text \<open>The scenario of the specification: from the initial state, writing 90 and reading
  back.\<close>

theorem write_then_read_witness:
  "(90 :: nat) \<le> 100 \<and>
   auto_monitor_write (Readable ''90'') auto_monitor_init =
     (Inr (length ''90''), snd (auto_monitor_write (Readable ''90'') auto_monitor_init)) \<and>
   unat (current_sim_workload_level
     (snd (auto_monitor_write (Readable ''90'') auto_monitor_init))) = 90 \<and>
   unat (simulated_gpu_temp
     (snd (auto_monitor_write (Readable ''90'') auto_monitor_init))) = 95 \<and>
   unat (simulated_memory_pressure
     (snd (auto_monitor_write (Readable ''90'') auto_monitor_init))) = 60 \<and>
   fst (auto_monitor_read True 511 0
     (snd (auto_monitor_write (Readable ''90'') auto_monitor_init))) =
     Inr (''Workload: 90%'' @ [CHR 0x0A] @ ''Resource Factor: 5'' @ [CHR 0x0A] @
          ''Critical Alerts: 0'' @ [CHR 0x0A] @ ''Simulated GPU Temp: 95C'' @ [CHR 0x0A] @
          ''Simulated Memory Pressure: 60%'' @ [CHR 0x0A] @ ''Timer Ticks: 0'' @ [CHR 0x0A])"
  using write_then_read [of 90 "snd (auto_monitor_write (Readable ''90'') auto_monitor_init)"
      auto_monitor_init 511]
  by (simp add: dec_vals fmt_lu_def fmt_d_def auto_monitor_init_def)

text \<open>
  The claim C6 fails on the code in two ways, shown on the state with workload 50. The
  text \<open>-5\<close> is not clamped to 0: the parser reads unsigned numbers only, both writes
  return the format error and the workload stays 50. The numeral \<open>2 ^ 64\<close> is not
  clamped to 100: the parser reports it out of range, the write returns the error and
  the workload stays 50.
\<close>

theorem out_of_range_rejected_counterexample:
  "fst (auto_monitor_write (Readable ''-5'') (set_workload 50 auto_monitor_init)) = Inl EINVAL \<and>
   current_sim_workload_level
     (snd (auto_monitor_write (Readable ''-5'') (set_workload 50 auto_monitor_init))) = 50 \<and>
   fst (workload_store ''-5'' (set_workload 50 auto_monitor_init)) = Inl EINVAL \<and>
   fst (auto_monitor_write (Readable ''18446744073709551616'')
     (set_workload 50 auto_monitor_init)) = Inl EINVAL \<and>
   current_sim_workload_level
     (snd (auto_monitor_write (Readable ''18446744073709551616'')
       (set_workload 50 auto_monitor_init))) = 50"
  by (simp add: write_reject [OF kstrtoul_minus_5] write_reject [OF kstrtoul_two_to_64]
      store_reject [OF kstrtoul_minus_5])

text \<open>
  C6, amended. Take any payload whose text (up to the first NUL byte) is a decimal
  numeral (an optional plus sign, digits, an optional final newline) of a value above
  100. If the value is below \<open>2 ^ 64\<close>, the attribute store sets the workload to 100
  (and with it the temperature to 100 and the memory pressure to 66), queues the work
  item and returns the number of bytes written, and so does the device write when the
  payload is at most 255 bytes long. If the value is \<open>2 ^ 64\<close> or more, both writes
  return the format error and leave the state as it was.
\<close>

theorem clamp_above_range:
  assumes d: "decimal_text (c_str p)" and big: "100 < text_value (c_str p)"
  shows "(text_value (c_str p) < 2 ^ 64 \<longrightarrow>
            workload_store p s = (Inr (length p), set_workload 100 s) \<and>
            (length p \<le> 255 \<longrightarrow>
               auto_monitor_write (Readable p) s = (Inr (length p), set_workload 100 s))) \<and>
         (2 ^ 64 \<le> text_value (c_str p) \<longrightarrow>
            workload_store p s = (Inl EINVAL, s) \<and>
            auto_monitor_write (Readable p) s = (Inl EINVAL, s))"
proof (cases "text_value (c_str p) < 2 ^ 64")
  case True
  then have k: "kstrtoul (c_str p) = Inr (of_nat (text_value (c_str p)))"
    using d by (simp add: kstrtoul_decimal)
  have "unat (of_nat (text_value (c_str p)) :: ulong) = text_value (c_str p)"
    using True by (simp add: unat_of_nat)
  then have gt: "(100 :: ulong) < of_nat (text_value (c_str p))"
    using big by (simp add: word_less_nat_alt)
  show ?thesis
    using True store_accept [OF k, of s] write_accept [OF k, of s] gt by simp
next
  case False
  then have k: "kstrtoul (c_str p) = Inl ERANGE"
    using d by (simp add: kstrtoul_decimal)
  show ?thesis
    using False store_reject [OF k, of s] write_reject [OF k, of s] by simp
qed

theorem clamp_above_range_witness:
  "decimal_text (c_str ''150'') \<and> 100 < text_value (c_str ''150'') \<and>
   workload_store ''150'' auto_monitor_init = (Inr 3, set_workload 100 auto_monitor_init) \<and>
   auto_monitor_write (Readable ''150'') auto_monitor_init =
     (Inr 3, set_workload 100 auto_monitor_init) \<and>
   unat (current_sim_workload_level (set_workload 100 auto_monitor_init)) = 100"
proof -
  have d: "decimal_text (c_str ''150'')"
    by (simp add: decimal_text_def numeral_digits_def c_str_def is_digit_def)
  have v: "text_value (c_str ''150'') = 150"
    by (simp add: numeral_digits_def c_str_def text_value_def digits_value_def)
  have b: "100 < text_value (c_str ''150'')" by (simp add: v)
  show ?thesis
    using d b clamp_above_range [OF d b, of auto_monitor_init] by (simp add: v)
qed

lemma kstrtoul_five_nul_junk:
  "kstrtoul (c_str (CHR ''5'' # CHR 0x00 # ''junk'')) = Inr 5"
  by code_simp

text \<open>
  The claim C7 fails on a payload with an embedded NUL byte: the six bytes \<open>5\<close>,
  NUL, \<open>junk\<close>. As a whole the payload is not a decimal numeral, yet the parser reads
  the buffer as a C string and sees only \<open>5\<close>: from the initial state both writes
  return 6 bytes written, set the workload to 5 and queue the work item.
\<close>

theorem embedded_nul_accepted_counterexample:
  "\<not> decimal_text (CHR ''5'' # CHR 0x00 # ''junk'') \<and>
   auto_monitor_write (Readable (CHR ''5'' # CHR 0x00 # ''junk'')) auto_monitor_init =
     (Inr 6, set_workload 5 auto_monitor_init) \<and>
   workload_store (CHR ''5'' # CHR 0x00 # ''junk'') auto_monitor_init =
     (Inr 6, set_workload 5 auto_monitor_init) \<and>
   current_sim_workload_level auto_monitor_init = 0 \<and>
   current_sim_workload_level (set_workload 5 auto_monitor_init) = 5 \<and>
   \<not> work_pending auto_monitor_init \<and>
   work_pending (set_workload 5 auto_monitor_init)"
proof -
  have m: "\<not> decimal_text (CHR ''5'' # CHR 0x00 # ''junk'')"
    by (simp add: decimal_text_def numeral_digits_def is_digit_def)
  have i: "current_sim_workload_level auto_monitor_init = 0 \<and> \<not> work_pending auto_monitor_init"
    by (simp add: auto_monitor_init_def)
  show ?thesis
    using m i store_accept [OF kstrtoul_five_nul_junk, of auto_monitor_init]
      write_accept [OF kstrtoul_five_nul_junk, of auto_monitor_init]
    by simp
qed

text \<open>
  C7, amended. Take any payload whose text up to the first NUL byte (the C string the
  parser reads) is not a decimal numeral: not an optional plus sign, one or more digits
  and an optional final newline. The device write and the attribute store both return
  the format error at once, and the state they return is the state they were given, in
  every field: workload, temperature, memory pressure, resource factor, alert count,
  and the pending bit of the work item, so no run of the adjustment engine is queued.
  Bytes after an embedded NUL are not looked at.
\<close>

theorem malformed_rejected:
  assumes "\<not> decimal_text (c_str payload)"
  shows "auto_monitor_write (Readable payload) s = (Inl EINVAL, s) \<and>
         workload_store payload s = (Inl EINVAL, s)"
proof (cases "kstrtoul (c_str payload)")
  case (Inl e)
  then show ?thesis by (simp add: write_reject store_reject)
next
  case (Inr v)
  then have "decimal_text (c_str payload)" using kstrtoul_accepts by blast
  then show ?thesis using assms by simp
qed

theorem malformed_rejected_witness:
  "\<not> decimal_text (c_str ''12abc'') \<and>
   auto_monitor_write (Readable ''12abc'') auto_monitor_init = (Inl EINVAL, auto_monitor_init) \<and>
   workload_store ''12abc'' auto_monitor_init = (Inl EINVAL, auto_monitor_init)"
proof -
  have h: "\<not> decimal_text (c_str ''12abc'')"
    by (simp add: decimal_text_def numeral_digits_def c_str_def is_digit_def)
  show ?thesis using h malformed_rejected [OF h, of auto_monitor_init] by simp
qed

lemma digits_from_zeros: "digits_from 0 (replicate n (CHR ''0'')) = 0"
  by (induction n) simp_all

lemma padded_five:
  "list_all is_digit (replicate 255 (CHR ''0'') @ ''5'')"
  "digits_from 0 (replicate 255 (CHR ''0'') @ ''5'') = 5"
  by (simp_all add: list_all_iff digits_from_append digits_from_zeros is_digit_def)

lemma kstrtoul_padded_five:
  "kstrtoul (c_str (replicate 255 (CHR ''0'') @ ''5'')) = Inr 5"
proof -
  let ?p = "replicate 255 (CHR ''0'') @ ''5''"
  have c: "c_str ?p = ?p" using padded_five(1) by (rule digits_no_nul)
  have n: "numeral_digits ?p = ?p" using padded_five(1) by (rule digits_numeral)
  have d: "decimal_text ?p" using padded_five(1) n by (simp add: decimal_text_def)
  have v: "text_value ?p = 5" using padded_five(2) n
    by (simp add: text_value_def digits_value_def digits_from_def)
  show ?thesis using kstrtoul_decimal [OF d] by (simp add: c v)
qed

text \<open>
  The claim C9 fails on a payload of 256 bytes: 255 zeros and a 5. The attribute store
  accepts it and sets the workload to 5; the device write returns the error.
\<close>

theorem long_payload_paths_differ_counterexample:
  "fst (auto_monitor_write (Readable (replicate 255 (CHR ''0'') @ ''5'')) auto_monitor_init)
     = Inl EINVAL \<and>
   fst (workload_store (replicate 255 (CHR ''0'') @ ''5'') auto_monitor_init) = Inr 256 \<and>
   current_sim_workload_level
     (snd (workload_store (replicate 255 (CHR ''0'') @ ''5'') auto_monitor_init)) = 5"
  using store_accept [OF kstrtoul_padded_five, of auto_monitor_init]
  by (simp add: auto_monitor_write_def)

text \<open>
  C9, amended. For every payload of at most 255 bytes the device write and the
  attribute store return the same result and the same state. Either that is the format
  error with the state unchanged, or it is the number of bytes written with the work
  item queued.
\<close>

theorem write_paths_agree:
  assumes "length p \<le> 255"
  shows "auto_monitor_write (Readable p) s = workload_store p s \<and>
         (fst (workload_store p s) = Inl EINVAL \<and> snd (workload_store p s) = s \<or>
          fst (workload_store p s) = Inr (length p) \<and> work_pending (snd (workload_store p s)))"
proof (cases "kstrtoul (c_str p)")
  case (Inl e)
  then show ?thesis by (simp add: write_reject store_reject)
next
  case (Inr v)
  show ?thesis
    using store_accept [OF Inr, of s] write_accept [OF Inr assms, of s]
    by simp
qed

theorem write_paths_agree_witness:
  "length ''42'' \<le> 255 \<and>
   auto_monitor_write (Readable ''42'') auto_monitor_init = workload_store ''42'' auto_monitor_init \<and>
   fst (workload_store ''42'' auto_monitor_init) = Inr 2 \<and>
   work_pending (snd (workload_store ''42'' auto_monitor_init))"
  using write_paths_agree [of "''42''" auto_monitor_init]
    store_accept [OF kstrtoul_42, of auto_monitor_init]
  by simp

text \<open>
  C10. The device write returns the invalid-argument error for every payload longer
  than 255 bytes, whatever its content and whether or not the user buffer can be read:
  the length is tested before the buffer is copied and before any field is read or
  written, and the state is returned as it was.
\<close>

theorem long_payload_rejected:
  "255 < user_len ubuf \<Longrightarrow> auto_monitor_write ubuf s = (Inl EINVAL, s)"
  by (simp add: auto_monitor_write_def)

text \<open>A payload of 256 bytes that denotes 5.\<close>

theorem long_payload_rejected_witness:
  "255 < user_len (Readable (replicate 255 (CHR ''0'') @ ''5'')) \<and>
   kstrtoul (c_str (replicate 255 (CHR ''0'') @ ''5'')) = Inr 5 \<and>
   auto_monitor_write (Readable (replicate 255 (CHR ''0'') @ ''5'')) auto_monitor_init =
     (Inl EINVAL, auto_monitor_init)"
  using long_payload_rejected [of "Readable (replicate 255 (CHR ''0'') @ ''5'')" auto_monitor_init]
    kstrtoul_padded_five
  by simp

end
